theory Spec2Isabelle
  imports Complex_Main
begin

section \<open>The authentication and authorization gate of \<^verbatim>\<open>src/server/middleware/auth.ts\<close>\<close>

text \<open>
  The middleware \<^verbatim>\<open>authenticateToken\<close> and the gate \<^verbatim>\<open>requireRole\<close> are embedded as
  pure functions. Everything the TypeScript reads from outside the file is an explicit
  argument: the process environment, the request, the user store \<^verbatim>\<open>dbPool\<close>, and the
  library functions \<^verbatim>\<open>jwt.verify\<close>, \<^verbatim>\<open>atob\<close>, \<^verbatim>\<open>JSON.parse\<close> and \<^verbatim>\<open>Date.now\<close>. What the
  middleware does to the response or to \<^verbatim>\<open>req.user\<close> is the value it returns. The
  \<^verbatim>\<open>console.log\<close> calls are left out, except where evaluating their arguments can throw.
\<close>

subsection \<open>JavaScript values\<close>

text \<open>
  The decoded token is of type \<^verbatim>\<open>any\<close>, so the model carries JavaScript values. Finite
  numbers are rationals (every finite double is one); the other three numbers are
  constructors of their own.
\<close>

datatype jsnum = NaN | PosInf | NegInf | Fin rat

datatype jsval =
    JUndefined
  | JNull
  | JBool bool
  | JNum jsnum
  | JStr string
  | JArr "jsval list"
  | JObj "(string \<times> jsval) list"

text \<open>Truthiness, as \<^verbatim>\<open>!x\<close>, \<^verbatim>\<open>x && y\<close> and \<^verbatim>\<open>x || y\<close> test it.\<close>

fun truthy :: "jsval \<Rightarrow> bool" where
  "truthy JUndefined = False"
| "truthy JNull = False"
| "truthy (JBool b) = b"
| "truthy (JNum NaN) = False"
| "truthy (JNum PosInf) = True"
| "truthy (JNum NegInf) = True"
| "truthy (JNum (Fin r)) = (r \<noteq> 0)"
| "truthy (JStr s) = (s \<noteq> [])"
| "truthy (JArr xs) = True"
| "truthy (JObj kvs) = True"

text \<open>\<^verbatim>\<open>a || b\<close>: the left operand when it is truthy, the right one otherwise.\<close>

definition js_or :: "jsval \<Rightarrow> jsval \<Rightarrow> jsval" where
  "js_or a b = (if truthy a then a else b)"

text \<open>
  Property access \<^verbatim>\<open>v.k\<close> for the keys the middleware reads (\<^verbatim>\<open>id\<close>, \<^verbatim>\<open>userId\<close>,
  \<^verbatim>\<open>email\<close>, \<^verbatim>\<open>role\<close>, \<^verbatim>\<open>exp\<close>): a TypeError (\<open>None\<close>) on \<^verbatim>\<open>undefined\<close> and \<^verbatim>\<open>null\<close>,
  the own property of an object (its association list holds each key once), and
  \<^verbatim>\<open>undefined\<close> where the key is missing and on every other value, none of whose
  prototypes defines these keys.
\<close>

fun get_prop :: "jsval \<Rightarrow> string \<Rightarrow> jsval option" where
  "get_prop JUndefined k = None"
| "get_prop JNull k = None"
| "get_prop (JObj kvs) k = Some (case map_of kvs k of None \<Rightarrow> JUndefined | Some v \<Rightarrow> v)"
| "get_prop v k = Some JUndefined"

text \<open>A value is defined when it is neither \<^verbatim>\<open>undefined\<close> nor \<^verbatim>\<open>null\<close>.\<close>

definition defined :: "jsval \<Rightarrow> bool" where
  "defined v = (v \<noteq> JUndefined \<and> v \<noteq> JNull)"

subsection \<open>The platform, the environment, the request and the store\<close>

datatype jwt_result = JwtOk jsval | JwtError string

text \<open>
  The library functions the middleware calls. \<open>jwt_verify token secret\<close> returns the
  verified payload or throws an error of the given name; \<open>atob\<close> and \<open>JSON_parse\<close>
  return \<open>None\<close> where they throw; \<open>Date_now\<close> is the clock read of this request;
  \<open>coerce\<close> is the conversion to a number of a string, an array or an object in a
  comparison (\<open>None\<close> where it throws a TypeError).
\<close>

record platform =
  jwt_verify :: "string \<Rightarrow> string \<Rightarrow> jwt_result"
  atob :: "string \<Rightarrow> string option"
  JSON_parse :: "string \<Rightarrow> jsval option"
  Date_now :: int
  coerce :: "jsval \<Rightarrow> jsnum option"

text \<open>\<^verbatim>\<open>process.env\<close>: a dictionary from variable names to strings.\<close>

type_synonym env = "string \<rightharpoonup> string"

text \<open>An environment variable is truthy when it is set to a non-empty string.\<close>

definition env_truthy :: "string option \<Rightarrow> bool" where
  "env_truthy v = (case v of None \<Rightarrow> False | Some s \<Rightarrow> s \<noteq> [])"

record request =
  authorization :: "string option"
  url :: string

text \<open>
  \<^verbatim>\<open>req.user\<close>. The interface declares three strings; the values assigned at run time
  come from a payload of type \<^verbatim>\<open>any\<close> or from a row of the store, so the fields are
  JavaScript values.
\<close>

record user =
  uid :: jsval
  email :: jsval
  role :: jsval

text \<open>
  A row of \<^verbatim>\<open>SELECT id, email, role FROM users WHERE id = $1\<close>. The table's declaration
  is not part of the sources, so the rows are whatever the store returns.
\<close>

record user_row =
  row_id :: jsval
  row_email :: jsval
  row_role :: jsval

datatype query_result = Rows "user_row list" | QueryError

text \<open>\<^verbatim>\<open>dbPool\<close> is \<^verbatim>\<open>null\<close> when no database is configured; the query is by id.\<close>

type_synonym dbPool = "(jsval \<Rightarrow> query_result) option"

text \<open>
  What the middleware did: it called \<^verbatim>\<open>next()\<close> with \<^verbatim>\<open>req.user\<close> set, or it sent
  \<^verbatim>\<open>res.status(s).json({error, code})\<close>.
\<close>

datatype response = Next user | Respond nat string string

subsection \<open>Strings\<close>

text \<open>\<^verbatim>\<open>s.split(' ')\<close>: the segments between single spaces, empty ones included.\<close>

fun split_sp :: "string \<Rightarrow> string list" where
  "split_sp [] = [[]]"
| "split_sp (c # cs) =
     (if c = CHR '' '' then [] # split_sp cs
      else (case split_sp cs of [] \<Rightarrow> [[c]] | w # ws \<Rightarrow> (c # w) # ws))"

text \<open>\<^verbatim>\<open>xs[i]\<close> on an array: \<^verbatim>\<open>undefined\<close> (\<open>None\<close>) out of range.\<close>

fun index :: "'a list \<Rightarrow> nat \<Rightarrow> 'a option" where
  "index [] i = None"
| "index (x # xs) 0 = Some x"
| "index (x # xs) (Suc i) = index xs i"

text \<open>\<^verbatim>\<open>s.includes(p)\<close>: \<open>p\<close> occurs somewhere in \<open>s\<close>.\<close>

fun str_includes :: "string \<Rightarrow> string \<Rightarrow> bool" where
  "str_includes [] p = (p = [])"
| "str_includes (c # cs) p = (take (length p) (c # cs) = p \<or> str_includes cs p)"

subsection \<open>Token Resolver (lines 19-20 and the test of line 33)\<close>

text \<open>
  \<^verbatim>\<open>authHeader && authHeader.split(' ')[1]\<close>: an absent header gives \<^verbatim>\<open>undefined\<close>, an
  empty one gives itself, any other header gives its second segment or \<^verbatim>\<open>undefined\<close>.
\<close>

definition bearer_token :: "string option \<Rightarrow> string option" where
  "bearer_token authHeader =
     (case authHeader of
        None \<Rightarrow> None
      | Some h \<Rightarrow> if h = [] then Some [] else index (split_sp h) 1)"

text \<open>\<^verbatim>\<open>!token\<close>: the token is \<^verbatim>\<open>undefined\<close> or the empty string.\<close>

definition no_token :: "string option \<Rightarrow> bool" where
  "no_token token = (case token of None \<Rightarrow> True | Some t \<Rightarrow> t = [])"

subsection \<open>Demo-Fallback Policy (the condition of lines 37 and 85)\<close>

definition demo_user :: user where
  "demo_user = \<lparr>uid = JStr ''demo-user'', email = JStr ''demo@example.com'', role = JStr ''admin''\<rparr>"

definition demo_fallback :: "env \<Rightarrow> request \<Rightarrow> bool" where
  "demo_fallback E req =
     (env_truthy (E ''FLY_APP_NAME'') \<or> str_includes (url req) ''/patients''
      \<or> E ''NODE_ENV'' \<noteq> Some ''production'')"

subsection \<open>Token Validator (lines 57-101)\<close>

text \<open>\<^verbatim>\<open>process.env.JWT_SECRET || 'dev-secret'\<close>\<close>

definition jwt_secret :: "env \<Rightarrow> string" where
  "jwt_secret E =
     (case E ''JWT_SECRET'' of
        None \<Rightarrow> ''dev-secret''
      | Some s \<Rightarrow> if s = [] then ''dev-secret'' else s)"

text \<open>The conversion to a number of the right operand of \<^verbatim>\<open>Date.now() > decoded.exp\<close>.\<close>

fun ToNumber :: "platform \<Rightarrow> jsval \<Rightarrow> jsnum option" where
  "ToNumber P JUndefined = Some NaN"
| "ToNumber P JNull = Some (Fin 0)"
| "ToNumber P (JBool b) = Some (Fin (if b then 1 else 0))"
| "ToNumber P (JNum n) = Some n"
| "ToNumber P v = coerce P v"

text \<open>\<^verbatim>\<open>now > n\<close> on numbers.\<close>

fun now_gt :: "int \<Rightarrow> jsnum \<Rightarrow> bool" where
  "now_gt now NaN = False"
| "now_gt now PosInf = False"
| "now_gt now NegInf = True"
| "now_gt now (Fin r) = (r < of_int now)"

text \<open>
  The inner \<^verbatim>\<open>try\<close> block (lines 65-76). \<open>None\<close>: something in it threw (\<^verbatim>\<open>atob\<close>,
  \<^verbatim>\<open>JSON.parse\<close>, the property reads of line 67 on \<^verbatim>\<open>null\<close>, or the comparison), and
  the \<^verbatim>\<open>catch\<close> of line 77 runs. Otherwise the payload, and whether line 70 found it
  expired.
\<close>

definition mock_decode :: "platform \<Rightarrow> string \<Rightarrow> (jsval \<times> bool) option" where
  "mock_decode P token =
     (case atob P token of
        None \<Rightarrow> None
      | Some mockToken \<Rightarrow>
          (case JSON_parse P mockToken of
             None \<Rightarrow> None
           | Some decoded \<Rightarrow>
               (case get_prop decoded ''exp'' of
                  None \<Rightarrow> None
                | Some e \<Rightarrow>
                    if truthy e then
                      (case ToNumber P e of
                         None \<Rightarrow> None
                       | Some n \<Rightarrow> Some (decoded, now_gt (Date_now P) n))
                    else Some (decoded, False))))"

subsection \<open>Identity Resolver (lines 103-146)\<close>

text \<open>
  A property read on \<^verbatim>\<open>null\<close> or \<^verbatim>\<open>undefined\<close> throws into the outer \<^verbatim>\<open>catch\<close>
  (line 140); the four reads are on the same value, so they throw together. With a
  store and a truthy \<^verbatim>\<open>decoded.id\<close> the user is looked up (line 104); otherwise the
  identity is built from the claims, each with its default (lines 132-136).
\<close>

definition resolve_identity :: "dbPool \<Rightarrow> jsval \<Rightarrow> response" where
  "resolve_identity db decoded =
     (case (get_prop decoded ''id'', get_prop decoded ''userId'', get_prop decoded ''email'', get_prop decoded ''role'') of
        (Some i, Some u, Some e, Some r) \<Rightarrow>
          (case db of
             None \<Rightarrow>
               Next \<lparr>uid = js_or (js_or i u) (JStr ''demo-user''),
                     email = js_or e (JStr ''demo@example.com''),
                     role = js_or r (JStr ''admin'')\<rparr>
           | Some query \<Rightarrow>
               if truthy i then
                 (case query i of
                    QueryError \<Rightarrow> Respond 500 ''Database error during authentication'' ''DB_ERROR''
                  | Rows [] \<Rightarrow> Respond 401 ''User not found'' ''USER_NOT_FOUND''
                  | Rows (row # rest) \<Rightarrow>
                      Next \<lparr>uid = row_id row, email = row_email row, role = row_role row\<rparr>)
               else
                 Next \<lparr>uid = js_or (js_or i u) (JStr ''demo-user''),
                       email = js_or e (JStr ''demo@example.com''),
                       role = js_or r (JStr ''admin'')\<rparr>)
      | _ \<Rightarrow> Respond 500 ''Authentication failed'' ''AUTH_ERROR'')"

subsection \<open>The middleware\<close>

text \<open>Lines 33-52: what happens when \<^verbatim>\<open>!token\<close> holds.\<close>

definition token_missing :: "env \<Rightarrow> request \<Rightarrow> response" where
  "token_missing E req =
     (if demo_fallback E req then Next demo_user
      else Respond 401 ''Access token required'' ''TOKEN_MISSING'')"

text \<open>Lines 77-100: the \<^verbatim>\<open>catch\<close> of the mock decoding.\<close>

definition token_invalid :: "env \<Rightarrow> request \<Rightarrow> response" where
  "token_invalid E req =
     (if demo_fallback E req then Next demo_user
      else Respond 401 ''Invalid token'' ''TOKEN_INVALID'')"

definition authenticateToken :: "env \<Rightarrow> platform \<Rightarrow> dbPool \<Rightarrow> request \<Rightarrow> response" where
  "authenticateToken E P db req =
     (case bearer_token (authorization req) of
        None \<Rightarrow> token_missing E req
      | Some token \<Rightarrow>
          if token = [] then token_missing E req
          else
            (case jwt_verify P token (jwt_secret E) of
               JwtOk decoded \<Rightarrow> resolve_identity db decoded
             | JwtError jwtError \<Rightarrow>
                 (case mock_decode P token of
                    None \<Rightarrow> token_invalid E req
                  | Some (decoded, expired) \<Rightarrow>
                      if expired then Respond 401 ''Token expired'' ''TOKEN_EXPIRED''
                      else resolve_identity db decoded)))"

subsection \<open>Role Gate (lines 149-167)\<close>

text \<open>
  \<^verbatim>\<open>roles.includes(req.user.role)\<close> compares with the strings of the allow-list; the
  gate leaves \<^verbatim>\<open>req.user\<close> as it is.
\<close>

definition requireRole :: "string list \<Rightarrow> user option \<Rightarrow> response" where
  "requireRole roles req_user =
     (case req_user of
        None \<Rightarrow> Respond 401 ''Authentication required'' ''AUTH_REQUIRED''
      | Some u \<Rightarrow>
          if role u \<in> set (map JStr roles) then Next u
          else Respond 403 ''Insufficient permissions'' ''INSUFFICIENT_PERMISSIONS'')"

subsection \<open>Notions the properties speak of\<close>

text \<open>
  The Token Validator produced the payload \<open>d\<close> for a token: signature verification
  returned it, or verification threw and the mock decoding returned it unexpired.
\<close>

definition validated :: "env \<Rightarrow> platform \<Rightarrow> string \<Rightarrow> jsval \<Rightarrow> bool" where
  "validated E P token d =
     (case jwt_verify P token (jwt_secret E) of
        JwtOk decoded \<Rightarrow> decoded = d
      | JwtError jwtError \<Rightarrow> mock_decode P token = Some (d, False))"

text \<open>
  The request carries no usable credential: no token, or a token that fails signature
  verification and whose mock decoding throws.
\<close>

definition unauthenticated :: "env \<Rightarrow> platform \<Rightarrow> request \<Rightarrow> bool" where
  "unauthenticated E P req =
     (case bearer_token (authorization req) of
        None \<Rightarrow> True
      | Some token \<Rightarrow>
          token = [] \<or>
          (case jwt_verify P token (jwt_secret E) of
             JwtOk decoded \<Rightarrow> False
           | JwtError jwtError \<Rightarrow> mock_decode P token = None))"


text \<open>
  The path trigger in the words of the specification: the request path, that is the
  URL up to its query string, begins with the allow-listed prefix. The middleware
  itself tests \<^verbatim>\<open>req.url.includes('/patients')\<close>, which is \<open>str_includes\<close> above.
\<close>

definition request_path :: "string \<Rightarrow> string" where
  "request_path u = takeWhile (\<lambda>c. c \<noteq> CHR ''?'') u"

definition path_has_prefix :: "string \<Rightarrow> string \<Rightarrow> bool" where
  "path_has_prefix u p = (take (length p) (request_path u) = p)"

subsection \<open>Concrete environments, platforms and stores\<close>

definition env_production :: env where
  "env_production = [''NODE_ENV'' \<mapsto> ''production'']"

definition env_production_fly :: env where
  "env_production_fly = [''NODE_ENV'' \<mapsto> ''production'', ''FLY_APP_NAME'' \<mapsto> ''telecheck-demo'']"

definition env_development :: env where
  "env_development = [''NODE_ENV'' \<mapsto> ''development'']"

text \<open>The double quote, for writing JSON texts.\<close>

definition dq :: string where
  "dq = [CHR 0x22]"

text \<open>
  A platform given by a table of the library functions' values at the tokens used
  below: \<^verbatim>\<open>e30=\<close> is the base64 of \<^verbatim>\<open>{}\<close>, \<^verbatim>\<open>eyJleHAiOjEwMDB9\<close> of the object with
  \<^verbatim>\<open>exp\<close> 1000, \<^verbatim>\<open>eyJ1c2VySWQiOiJ1NyJ9\<close> of the object with \<^verbatim>\<open>userId\<close> u7,
  \<^verbatim>\<open>eyJleHAiOjE4MDAwMDAwMDAwMDAsInJvbGUiOiJkb2N0b3IifQ==\<close> of the object with \<^verbatim>\<open>exp\<close>
  1800000000000 and \<^verbatim>\<open>role\<close> doctor, \<^verbatim>\<open>bm90IGpzb24=\<close> of the text \<^verbatim>\<open>not json\<close>, on
  which \<^verbatim>\<open>JSON.parse\<close> throws;
  \<^verbatim>\<open>hdr.u1.sig\<close>, \<^verbatim>\<open>hdr.u2.sig\<close> and \<^verbatim>\<open>hdr.u9.sig\<close> stand for tokens signed with the secret,
  \<^verbatim>\<open>hdr.expired.sig\<close> for a signed token past its expiry; \<^verbatim>\<open>atob\<close> throws on a token
  with a dot.
\<close>

definition example_platform :: platform where
  "example_platform =
     \<lparr>jwt_verify = (\<lambda>token secret.
          if token = ''hdr.u1.sig'' then JwtOk (JObj [(''id'', JStr ''u1''), (''role'', JStr ''doctor'')])
          else if token = ''hdr.u2.sig'' then JwtOk (JObj [(''id'', JStr ''u2'')])
          else if token = ''hdr.u9.sig'' then JwtOk (JObj [(''id'', JStr ''u9'')])
          else if token = ''hdr.expired.sig'' then JwtError ''TokenExpiredError''
          else JwtError ''JsonWebTokenError''),
      atob = (\<lambda>token.
          if token = ''e30='' then Some ''{}''
          else if token = ''eyJleHAiOjEwMDB9'' then Some (''{'' @ dq @ ''exp'' @ dq @ '':1000}'')
          else if token = ''eyJ1c2VySWQiOiJ1NyJ9''
            then Some (''{'' @ dq @ ''userId'' @ dq @ '':'' @ dq @ ''u7'' @ dq @ ''}'')
          else if token = ''eyJleHAiOjE4MDAwMDAwMDAwMDAsInJvbGUiOiJkb2N0b3IifQ==''
            then Some (''{'' @ dq @ ''exp'' @ dq @ '':1800000000000,'' @ dq @ ''role'' @ dq @ '':''
                       @ dq @ ''doctor'' @ dq @ ''}'')
          else if token = ''bm90IGpzb24='' then Some ''not json''
          else None),
      JSON_parse = (\<lambda>text.
          if text = ''{}'' then Some (JObj [])
          else if text = ''{'' @ dq @ ''exp'' @ dq @ '':1000}'' then Some (JObj [(''exp'', JNum (Fin 1000))])
          else if text = ''{'' @ dq @ ''userId'' @ dq @ '':'' @ dq @ ''u7'' @ dq @ ''}''
            then Some (JObj [(''userId'', JStr ''u7'')])
          else if text = ''{'' @ dq @ ''exp'' @ dq @ '':1800000000000,'' @ dq @ ''role'' @ dq @ '':''
                         @ dq @ ''doctor'' @ dq @ ''}''
            then Some (JObj [(''exp'', JNum (Fin 1800000000000)), (''role'', JStr ''doctor'')])
          else None),
      Date_now = 1700000000000,
      coerce = (\<lambda>v. Some NaN)\<rparr>"

text \<open>A store that knows the user u1, and whose lookup of u9 fails.\<close>

definition example_row :: user_row where
  "example_row = \<lparr>row_id = JStr ''u1'', row_email = JStr ''u1@clinic.example'', row_role = JStr ''doctor''\<rparr>"

definition example_store :: "jsval \<Rightarrow> query_result" where
  "example_store i =
     (if i = JStr ''u1'' then Rows [example_row]
      else if i = JStr ''u9'' then QueryError
      else Rows [])"


text \<open>A request without a header whose query string, not its path, mentions \<^verbatim>\<open>/patients\<close>.\<close>

definition request_query_patients :: request where
  "request_query_patients = \<lparr>authorization = None, url = ''/api/admin/users?ref=/patients''\<rparr>"

definition request_without_header :: request where
  "request_without_header = \<lparr>authorization = None, url = ''/api/appointments''\<rparr>"

definition request_with :: "string \<Rightarrow> request" where
  "request_with header = \<lparr>authorization = Some header, url = ''/api/appointments''\<rparr>"

section \<open>Properties\<close>

subsection \<open>Auxiliary facts\<close>

lemmas authenticate_defs = authenticateToken_def token_missing_def token_invalid_def

lemma split_sp_no_space: "CHR '' '' \<notin> set s \<Longrightarrow> split_sp s = [s]"
  by (induction s) (auto split: list.splits)

lemma split_sp_append: "CHR '' '' \<notin> set p \<Longrightarrow> split_sp (p @ CHR '' '' # r) = p # split_sp r"
  by (induction p) (auto split: list.splits)

lemma truthy_defined: "truthy v \<Longrightarrow> defined v"
  by (cases v) (auto simp: defined_def)



lemma authenticate_validated:
  assumes "bearer_token (authorization req) = Some token" and "token \<noteq> []"
    and "validated E P token d"
  shows "authenticateToken E P db req = resolve_identity db d"
  using assms
  by (auto simp: authenticate_defs validated_def split: jwt_result.splits)



subsection \<open>The fallback in production\<close>

text \<open>
  Against C1 as stated: with \<^verbatim>\<open>NODE_ENV\<close> set to \<^verbatim>\<open>production\<close> and the deployment
  marker \<^verbatim>\<open>FLY_APP_NAME\<close> present, a request without a token is given the demo
  identity.
\<close>
theorem C1_counterexample:
  "env_production_fly ''NODE_ENV'' = Some ''production'' \<and>
   bearer_token (authorization request_without_header) = None \<and>
   authenticateToken env_production_fly example_platform None request_without_header = Next demo_user"
  by (simp add: env_production_fly_def request_without_header_def bearer_token_def
      authenticate_defs demo_fallback_def env_truthy_def)

text \<open>
  C1 (amended). With \<^verbatim>\<open>NODE_ENV\<close> equal to \<^verbatim>\<open>production\<close>, a request with a missing or
  invalid token is given the synthetic identity exactly when the deployment marker
  \<^verbatim>\<open>FLY_APP_NAME\<close> is set or the URL contains \<^verbatim>\<open>/patients\<close>; when neither holds the
  fallback is never taken.
\<close>
theorem C1_production_fallback:
  assumes "E ''NODE_ENV'' = Some ''production''" and "unauthenticated E P req"
  shows "(authenticateToken E P db req = Next demo_user) =
         (env_truthy (E ''FLY_APP_NAME'') \<or> str_includes (url req) ''/patients'')"
  using assms
  by (auto simp: authenticate_defs unauthenticated_def demo_fallback_def
      split: option.splits jwt_result.splits)

theorem C1_production_fallback_witness:
  "env_production ''NODE_ENV'' = Some ''production'' \<and>
   unauthenticated env_production example_platform (request_with ''Bearer hdr.expired.sig'') \<and>
   authenticateToken env_production example_platform None (request_with ''Bearer hdr.expired.sig'') \<noteq> Next demo_user"
proof -
  have e: "env_production ''NODE_ENV'' = Some ''production''"
    by (simp add: env_production_def)
  have u: "unauthenticated env_production example_platform (request_with ''Bearer hdr.expired.sig'')"
    by (simp add: unauthenticated_def request_with_def bearer_token_def example_platform_def
        mock_decode_def)
  have "\<not> (env_truthy (env_production ''FLY_APP_NAME'') \<or>
        str_includes (url (request_with ''Bearer hdr.expired.sig'')) ''/patients'')"
    by (simp add: env_production_def env_truthy_def request_with_def)
  with C1_production_fallback [OF e u, of None] e u show ?thesis by simp
qed

subsection \<open>Missing token\<close>

text \<open>
  Against C2 as stated: in production, without the marker, a request without a token to
  \<^verbatim>\<open>/api/admin/users?ref=/patients\<close> has a path that neither begins with nor contains
  \<^verbatim>\<open>/patients\<close>, so none of the three triggers holds as the claim words them; the
  query string contains it, and the request proceeds with the demo identity instead of
  401 \<^verbatim>\<open>TOKEN_MISSING\<close>.
\<close>
theorem C2_counterexample:
  "no_token (bearer_token (authorization request_query_patients)) \<and>
   \<not> env_truthy (env_production ''FLY_APP_NAME'') \<and>
   \<not> path_has_prefix (url request_query_patients) ''/patients'' \<and>
   \<not> str_includes (request_path (url request_query_patients)) ''/patients'' \<and>
   env_production ''NODE_ENV'' = Some ''production'' \<and>
   authenticateToken env_production example_platform None request_query_patients = Next demo_user \<and>
   authenticateToken env_production example_platform None request_query_patients \<noteq>
     Respond 401 ''Access token required'' ''TOKEN_MISSING''"
  by (simp add: request_query_patients_def bearer_token_def no_token_def env_production_def
      env_truthy_def path_has_prefix_def request_path_def authenticate_defs demo_fallback_def)

text \<open>
  C2 (amended). For a request whose authorization header yields no token, the middleware
  answers 401 \<^verbatim>\<open>TOKEN_MISSING\<close> if and only if none of these holds: the marker
  \<^verbatim>\<open>FLY_APP_NAME\<close> is set, the URL (path and query string) contains \<^verbatim>\<open>/patients\<close>
  anywhere, \<^verbatim>\<open>NODE_ENV\<close> is other than \<^verbatim>\<open>production\<close>. If one holds, the fixed identity
  with role \<^verbatim>\<open>admin\<close> is attached and the request proceeds.
\<close>
theorem C2_token_missing:
  assumes "no_token (bearer_token (authorization req))"
  shows "((authenticateToken E P db req = Respond 401 ''Access token required'' ''TOKEN_MISSING'') =
          (\<not> env_truthy (E ''FLY_APP_NAME'') \<and> \<not> str_includes (url req) ''/patients''
           \<and> E ''NODE_ENV'' = Some ''production'')) \<and>
         (env_truthy (E ''FLY_APP_NAME'') \<or> str_includes (url req) ''/patients''
           \<or> E ''NODE_ENV'' \<noteq> Some ''production'' \<longrightarrow>
          authenticateToken E P db req =
            Next \<lparr>uid = JStr ''demo-user'', email = JStr ''demo@example.com'', role = JStr ''admin''\<rparr>)"
  using assms
  by (auto simp: authenticate_defs no_token_def demo_fallback_def demo_user_def
      split: option.splits)

theorem C2_token_missing_witness:
  "no_token (bearer_token (authorization request_without_header)) \<and>
   authenticateToken env_production example_platform None request_without_header =
     Respond 401 ''Access token required'' ''TOKEN_MISSING'' \<and>
   authenticateToken env_development example_platform None request_without_header =
     Next \<lparr>uid = JStr ''demo-user'', email = JStr ''demo@example.com'', role = JStr ''admin''\<rparr>"
proof -
  have n: "no_token (bearer_token (authorization request_without_header))"
    by (simp add: no_token_def bearer_token_def request_without_header_def)
  have p: "\<not> env_truthy (env_production ''FLY_APP_NAME'') \<and>
      \<not> str_includes (url request_without_header) ''/patients'' \<and>
      env_production ''NODE_ENV'' = Some ''production''"
    by (simp add: env_production_def env_truthy_def request_without_header_def)
  have d: "env_development ''NODE_ENV'' \<noteq> Some ''production''"
    by (simp add: env_development_def)
  from C2_token_missing [OF n, of env_production example_platform None]
    C2_token_missing [OF n, of env_development example_platform None] n p d
  show ?thesis by blast
qed

subsection \<open>Expired tokens\<close>

text \<open>
  Against C3 as stated: a signed token past its expiry, for which \<^verbatim>\<open>jwt.verify\<close> throws
  \<^verbatim>\<open>TokenExpiredError\<close>, is treated like any token that fails verification; outside
  production the request proceeds with the demo identity.
\<close>
theorem C3_counterexample:
  "jwt_verify example_platform ''hdr.expired.sig'' (jwt_secret env_development) = JwtError ''TokenExpiredError'' \<and>
   authenticateToken env_development example_platform None (request_with ''Bearer hdr.expired.sig'') =
     Next demo_user"
  by (simp add: example_platform_def authenticate_defs request_with_def bearer_token_def
      mock_decode_def demo_fallback_def env_development_def)

text \<open>
  C3 (amended). For every token that fails signature verification and decodes to a mock
  payload whose \<^verbatim>\<open>exp\<close> is a non-zero number earlier than the current time, the
  middleware answers 401 \<^verbatim>\<open>TOKEN_EXPIRED\<close>, whatever the other fields, the environment
  and the store are; no identity is synthesized.
\<close>
theorem C3_mock_token_expired:
  assumes "bearer_token (authorization req) = Some token" and "token \<noteq> []"
    and "jwt_verify P token (jwt_secret E) = JwtError m"
    and "atob P token = Some mockToken" and "JSON_parse P mockToken = Some d"
    and "get_prop d ''exp'' = Some (JNum (Fin r))" and "r \<noteq> 0" and "r < of_int (Date_now P)"
  shows "authenticateToken E P db req = Respond 401 ''Token expired'' ''TOKEN_EXPIRED''"
  using assms by (simp add: authenticate_defs mock_decode_def)

theorem C3_mock_token_expired_witness:
  "authenticateToken env_development example_platform None (request_with ''Bearer eyJleHAiOjEwMDB9'') =
     Respond 401 ''Token expired'' ''TOKEN_EXPIRED''"
proof -
  have a: "atob example_platform ''eyJleHAiOjEwMDB9'' = Some (''{'' @ dq @ ''exp'' @ dq @ '':1000}'')"
    by (simp add: example_platform_def)
  have j: "JSON_parse example_platform (''{'' @ dq @ ''exp'' @ dq @ '':1000}'') = Some (JObj [(''exp'', JNum (Fin 1000))])"
    by (simp add: example_platform_def dq_def)
  show ?thesis
    by (rule C3_mock_token_expired [where token = "''eyJleHAiOjEwMDB9''" and m = "''JsonWebTokenError''"
          and d = "JObj [(''exp'', JNum (Fin 1000))]" and r = 1000, OF _ _ _ a j])
      (simp_all add: request_with_def bearer_token_def example_platform_def)
qed


subsection \<open>Mock payloads\<close>

text \<open>
  Against C4 as stated: the token \<^verbatim>\<open>e30=\<close> decodes to the empty object, which has no
  identity field and no role field; in production, with no fallback condition, the
  request still proceeds, as \<^verbatim>\<open>demo-user\<close> with role \<^verbatim>\<open>admin\<close>.
\<close>
theorem C4_counterexample:
  "jwt_verify example_platform ''e30='' (jwt_secret env_production) = JwtError ''JsonWebTokenError'' \<and>
   atob example_platform ''e30='' = Some ''{}'' \<and>
   JSON_parse example_platform ''{}'' = Some (JObj []) \<and>
   get_prop (JObj []) ''id'' = Some JUndefined \<and>
   get_prop (JObj []) ''userId'' = Some JUndefined \<and>
   get_prop (JObj []) ''role'' = Some JUndefined \<and>
   \<not> demo_fallback env_production (request_with ''Bearer e30='') \<and>
   authenticateToken env_production example_platform None (request_with ''Bearer e30='') =
     Next \<lparr>uid = JStr ''demo-user'', email = JStr ''demo@example.com'', role = JStr ''admin''\<rparr>"
  by (simp add: example_platform_def authenticate_defs request_with_def bearer_token_def
      mock_decode_def demo_fallback_def env_production_def env_truthy_def resolve_identity_def
      js_or_def jwt_secret_def)

text \<open>
  C4 (amended). For every token that fails signature verification, mock verification
  never looks at an identity or role field. It is a validation failure (the demo
  fallback, or 401 \<^verbatim>\<open>TOKEN_INVALID\<close>) when \<^verbatim>\<open>atob\<close> throws, \<^verbatim>\<open>JSON.parse\<close> throws, the
  parsed value is \<^verbatim>\<open>null\<close>, or a truthy \<^verbatim>\<open>exp\<close> cannot be converted to a number; it is
  401 \<^verbatim>\<open>TOKEN_EXPIRED\<close> when a truthy \<^verbatim>\<open>exp\<close> converts to a number earlier than the
  current time; in every other case it succeeds, whatever fields the payload has, and
  the payload goes to identity resolution. There, with no store or no truthy \<^verbatim>\<open>id\<close>,
  the request proceeds with the payload's claims, \<^verbatim>\<open>demo-user\<close>,
  \<^verbatim>\<open>demo@example.com\<close> and \<^verbatim>\<open>admin\<close> standing in for the missing ones.
\<close>
theorem C4_mock_token_accepted:
  assumes "bearer_token (authorization req) = Some token" and "token \<noteq> []"
    and "jwt_verify P token (jwt_secret E) = JwtError m"
  shows
    "(atob P token = None \<or>
      (\<exists>s. atob P token = Some s \<and>
         (JSON_parse P s = None \<or>
          (\<exists>d. JSON_parse P s = Some d \<and>
             (get_prop d ''exp'' = None \<or>
              (\<exists>e. get_prop d ''exp'' = Some e \<and> truthy e \<and> ToNumber P e = None))))) \<longrightarrow>
        authenticateToken E P db req =
          (if demo_fallback E req then Next demo_user
           else Respond 401 ''Invalid token'' ''TOKEN_INVALID'')) \<and>
     (atob P token = Some mockToken \<and> JSON_parse P mockToken = Some decoded \<and>
      get_prop decoded ''exp'' = Some ex \<and> truthy ex \<and> ToNumber P ex = Some n \<and>
      now_gt (Date_now P) n \<longrightarrow>
        authenticateToken E P db req = Respond 401 ''Token expired'' ''TOKEN_EXPIRED'') \<and>
     (atob P token = Some mockToken \<and> JSON_parse P mockToken = Some decoded \<and>
      get_prop decoded ''exp'' = Some ex \<and>
      (\<not> truthy ex \<or> (ToNumber P ex = Some n \<and> \<not> now_gt (Date_now P) n)) \<longrightarrow>
        authenticateToken E P db req = resolve_identity db decoded \<and>
        authenticateToken E P db req \<noteq> Respond 401 ''Invalid token'' ''TOKEN_INVALID'' \<and>
        (\<forall>i u e r.
           get_prop decoded ''id'' = Some i \<and> get_prop decoded ''userId'' = Some u \<and>
           get_prop decoded ''email'' = Some e \<and> get_prop decoded ''role'' = Some r \<and>
           (db = None \<or> \<not> truthy i) \<longrightarrow>
             authenticateToken E P db req =
               Next \<lparr>uid = js_or (js_or i u) (JStr ''demo-user''),
                     email = js_or e (JStr ''demo@example.com''),
                     role = js_or r (JStr ''admin'')\<rparr>))"
proof -
  have failure: "atob P token = None \<or>
      (\<exists>s. atob P token = Some s \<and>
         (JSON_parse P s = None \<or>
          (\<exists>d. JSON_parse P s = Some d \<and>
             (get_prop d ''exp'' = None \<or>
              (\<exists>e. get_prop d ''exp'' = Some e \<and> truthy e \<and> ToNumber P e = None))))) \<longrightarrow>
        authenticateToken E P db req =
          (if demo_fallback E req then Next demo_user
           else Respond 401 ''Invalid token'' ''TOKEN_INVALID'')"
  proof
    assume "atob P token = None \<or>
      (\<exists>s. atob P token = Some s \<and>
         (JSON_parse P s = None \<or>
          (\<exists>d. JSON_parse P s = Some d \<and>
             (get_prop d ''exp'' = None \<or>
              (\<exists>e. get_prop d ''exp'' = Some e \<and> truthy e \<and> ToNumber P e = None)))))"
    then have "mock_decode P token = None"
      by (auto simp: mock_decode_def)
    with assms show "authenticateToken E P db req =
        (if demo_fallback E req then Next demo_user
         else Respond 401 ''Invalid token'' ''TOKEN_INVALID'')"
      by (simp add: authenticate_defs)
  qed
  have expired: "atob P token = Some mockToken \<and> JSON_parse P mockToken = Some decoded \<and>
      get_prop decoded ''exp'' = Some ex \<and> truthy ex \<and> ToNumber P ex = Some n \<and>
      now_gt (Date_now P) n \<longrightarrow>
        authenticateToken E P db req = Respond 401 ''Token expired'' ''TOKEN_EXPIRED''"
  proof
    assume "atob P token = Some mockToken \<and> JSON_parse P mockToken = Some decoded \<and>
      get_prop decoded ''exp'' = Some ex \<and> truthy ex \<and> ToNumber P ex = Some n \<and>
      now_gt (Date_now P) n"
    then have "mock_decode P token = Some (decoded, True)"
      by (simp add: mock_decode_def)
    with assms show "authenticateToken E P db req = Respond 401 ''Token expired'' ''TOKEN_EXPIRED''"
      by (simp add: authenticate_defs)
  qed
  have accepted: "atob P token = Some mockToken \<and> JSON_parse P mockToken = Some decoded \<and>
      get_prop decoded ''exp'' = Some ex \<and>
      (\<not> truthy ex \<or> (ToNumber P ex = Some n \<and> \<not> now_gt (Date_now P) n)) \<longrightarrow>
        authenticateToken E P db req = resolve_identity db decoded \<and>
        authenticateToken E P db req \<noteq> Respond 401 ''Invalid token'' ''TOKEN_INVALID'' \<and>
        (\<forall>i u e r.
           get_prop decoded ''id'' = Some i \<and> get_prop decoded ''userId'' = Some u \<and>
           get_prop decoded ''email'' = Some e \<and> get_prop decoded ''role'' = Some r \<and>
           (db = None \<or> \<not> truthy i) \<longrightarrow>
             authenticateToken E P db req =
               Next \<lparr>uid = js_or (js_or i u) (JStr ''demo-user''),
                     email = js_or e (JStr ''demo@example.com''),
                     role = js_or r (JStr ''admin'')\<rparr>)"
  proof
    assume "atob P token = Some mockToken \<and> JSON_parse P mockToken = Some decoded \<and>
      get_prop decoded ''exp'' = Some ex \<and>
      (\<not> truthy ex \<or> (ToNumber P ex = Some n \<and> \<not> now_gt (Date_now P) n))"
    then have "mock_decode P token = Some (decoded, False)"
      by (auto simp: mock_decode_def)
    with assms have res: "authenticateToken E P db req = resolve_identity db decoded"
      by (simp add: authenticate_defs)
    have no_invalid: "resolve_identity db decoded \<noteq> Respond 401 ''Invalid token'' ''TOKEN_INVALID''"
      by (simp add: resolve_identity_def
          split: option.splits query_result.splits list.splits)
    have claims: "resolve_identity db decoded =
        Next \<lparr>uid = js_or (js_or i u) (JStr ''demo-user''),
              email = js_or e (JStr ''demo@example.com''),
              role = js_or r (JStr ''admin'')\<rparr>"
      if "get_prop decoded ''id'' = Some i \<and> get_prop decoded ''userId'' = Some u \<and>
          get_prop decoded ''email'' = Some e \<and> get_prop decoded ''role'' = Some r \<and>
          (db = None \<or> \<not> truthy i)" for i u e r
      using that by (cases db) (auto simp: resolve_identity_def)
    from res no_invalid claims
    show "authenticateToken E P db req = resolve_identity db decoded \<and>
          authenticateToken E P db req \<noteq> Respond 401 ''Invalid token'' ''TOKEN_INVALID'' \<and>
          (\<forall>i u e r.
             get_prop decoded ''id'' = Some i \<and> get_prop decoded ''userId'' = Some u \<and>
             get_prop decoded ''email'' = Some e \<and> get_prop decoded ''role'' = Some r \<and>
             (db = None \<or> \<not> truthy i) \<longrightarrow>
               authenticateToken E P db req =
                 Next \<lparr>uid = js_or (js_or i u) (JStr ''demo-user''),
                       email = js_or e (JStr ''demo@example.com''),
                       role = js_or r (JStr ''admin'')\<rparr>)"
      by simp
  qed
  show ?thesis
    by (intro conjI) (rule failure, rule expired, rule accepted)
qed

theorem C4_mock_token_accepted_witness:
  "authenticateToken env_production example_platform (Some example_store) (request_with ''Bearer e30='') =
     Next \<lparr>uid = JStr ''demo-user'', email = JStr ''demo@example.com'', role = JStr ''admin''\<rparr> \<and>
   authenticateToken env_production example_platform (Some example_store)
     (request_with ''Bearer eyJleHAiOjE4MDAwMDAwMDAwMDAsInJvbGUiOiJkb2N0b3IifQ=='') =
     Next \<lparr>uid = JStr ''demo-user'', email = JStr ''demo@example.com'', role = JStr ''doctor''\<rparr> \<and>
   authenticateToken env_production example_platform (Some example_store)
     (request_with ''Bearer bm90IGpzb24='') = Respond 401 ''Invalid token'' ''TOKEN_INVALID''"
proof -
  let ?future = "''eyJleHAiOjE4MDAwMDAwMDAwMDAsInJvbGUiOiJkb2N0b3IifQ==''"
  let ?json = "''{'' @ dq @ ''exp'' @ dq @ '':1800000000000,'' @ dq @ ''role'' @ dq @ '':''
      @ dq @ ''doctor'' @ dq @ ''}''"
  let ?payload = "JObj [(''exp'', JNum (Fin 1800000000000)), (''role'', JStr ''doctor'')]"
  have hdr:
    "bearer_token (authorization (request_with ''Bearer e30='')) = Some ''e30=''"
    "bearer_token (authorization (request_with (''Bearer '' @ ?future))) = Some ?future"
    "bearer_token (authorization (request_with ''Bearer bm90IGpzb24='')) = Some ''bm90IGpzb24=''"
    by (simp_all add: request_with_def bearer_token_def)
  have ne: "''e30='' \<noteq> []" "?future \<noteq> []" "''bm90IGpzb24='' \<noteq> []"
    by simp_all
  have jwt:
    "jwt_verify example_platform ''e30='' (jwt_secret env_production) = JwtError ''JsonWebTokenError''"
    "jwt_verify example_platform ?future (jwt_secret env_production) = JwtError ''JsonWebTokenError''"
    "jwt_verify example_platform ''bm90IGpzb24='' (jwt_secret env_production) = JwtError ''JsonWebTokenError''"
    by (simp_all add: example_platform_def)
  have decode:
    "atob example_platform ''e30='' = Some ''{}''"
    "JSON_parse example_platform ''{}'' = Some (JObj [])"
    "atob example_platform ?future = Some ?json"
    "JSON_parse example_platform ?json = Some ?payload"
    "atob example_platform ''bm90IGpzb24='' = Some ''not json''"
    "JSON_parse example_platform ''not json'' = None"
    "Date_now example_platform = 1700000000000"
    by (simp_all add: example_platform_def dq_def)
  have no_fallback: "\<not> demo_fallback env_production (request_with h)" for h
    by (simp add: demo_fallback_def env_production_def env_truthy_def request_with_def)
  have a: "authenticateToken env_production example_platform (Some example_store)
      (request_with ''Bearer e30='') =
      Next \<lparr>uid = js_or (js_or JUndefined JUndefined) (JStr ''demo-user''),
            email = js_or JUndefined (JStr ''demo@example.com''),
            role = js_or JUndefined (JStr ''admin'')\<rparr>"
  proof -
    have "atob example_platform ''e30='' = Some ''{}'' \<and>
        JSON_parse example_platform ''{}'' = Some (JObj []) \<and>
        get_prop (JObj []) ''exp'' = Some JUndefined \<and>
        (\<not> truthy JUndefined \<or>
         (ToNumber example_platform JUndefined = Some NaN \<and>
          \<not> now_gt (Date_now example_platform) NaN))"
      using decode by simp
    with C4_mock_token_accepted [OF hdr(1) ne(1) jwt(1), where mockToken = "''{}''"
        and decoded = "JObj []" and ex = JUndefined and n = NaN and db = "Some example_store"]
    have "\<forall>i u e r.
        get_prop (JObj []) ''id'' = Some i \<and> get_prop (JObj []) ''userId'' = Some u \<and>
        get_prop (JObj []) ''email'' = Some e \<and> get_prop (JObj []) ''role'' = Some r \<and>
        (Some example_store = None \<or> \<not> truthy i) \<longrightarrow>
          authenticateToken env_production example_platform (Some example_store)
            (request_with ''Bearer e30='') =
            Next \<lparr>uid = js_or (js_or i u) (JStr ''demo-user''),
                  email = js_or e (JStr ''demo@example.com''),
                  role = js_or r (JStr ''admin'')\<rparr>"
      by blast
    from this [rule_format, of JUndefined JUndefined JUndefined JUndefined]
    show ?thesis by simp
  qed
  have b: "authenticateToken env_production example_platform (Some example_store)
      (request_with (''Bearer '' @ ?future)) =
      Next \<lparr>uid = js_or (js_or JUndefined JUndefined) (JStr ''demo-user''),
            email = js_or JUndefined (JStr ''demo@example.com''),
            role = js_or (JStr ''doctor'') (JStr ''admin'')\<rparr>"
  proof -
    have "atob example_platform ?future = Some ?json \<and>
        JSON_parse example_platform ?json = Some ?payload \<and>
        get_prop ?payload ''exp'' = Some (JNum (Fin 1800000000000)) \<and>
        (\<not> truthy (JNum (Fin 1800000000000)) \<or>
         (ToNumber example_platform (JNum (Fin 1800000000000)) = Some (Fin 1800000000000) \<and>
          \<not> now_gt (Date_now example_platform) (Fin 1800000000000)))"
      using decode by simp
    with C4_mock_token_accepted [OF hdr(2) ne(2) jwt(2), where mockToken = ?json
        and decoded = ?payload and ex = "JNum (Fin 1800000000000)" and n = "Fin 1800000000000"
        and db = "Some example_store"]
    have "\<forall>i u e r.
        get_prop ?payload ''id'' = Some i \<and> get_prop ?payload ''userId'' = Some u \<and>
        get_prop ?payload ''email'' = Some e \<and> get_prop ?payload ''role'' = Some r \<and>
        (Some example_store = None \<or> \<not> truthy i) \<longrightarrow>
          authenticateToken env_production example_platform (Some example_store)
            (request_with (''Bearer '' @ ?future)) =
            Next \<lparr>uid = js_or (js_or i u) (JStr ''demo-user''),
                  email = js_or e (JStr ''demo@example.com''),
                  role = js_or r (JStr ''admin'')\<rparr>"
      by blast
    from this [rule_format, of JUndefined JUndefined JUndefined "JStr ''doctor''"]
    show ?thesis by simp
  qed
  have c: "authenticateToken env_production example_platform (Some example_store)
      (request_with ''Bearer bm90IGpzb24='') = Respond 401 ''Invalid token'' ''TOKEN_INVALID''"
  proof -
    have "atob example_platform ''bm90IGpzb24='' = None \<or>
        (\<exists>s. atob example_platform ''bm90IGpzb24='' = Some s \<and>
           (JSON_parse example_platform s = None \<or>
            (\<exists>d. JSON_parse example_platform s = Some d \<and>
               (get_prop d ''exp'' = None \<or>
                (\<exists>e. get_prop d ''exp'' = Some e \<and> truthy e \<and>
                   ToNumber example_platform e = None)))))"
      using decode by simp
    with C4_mock_token_accepted [OF hdr(3) ne(3) jwt(3), where db = "Some example_store"]
    have "authenticateToken env_production example_platform (Some example_store)
        (request_with ''Bearer bm90IGpzb24='') =
        (if demo_fallback env_production (request_with ''Bearer bm90IGpzb24='') then Next demo_user
         else Respond 401 ''Invalid token'' ''TOKEN_INVALID'')"
      by blast
    with no_fallback show ?thesis by simp
  qed
  from a b c show ?thesis
    by (simp add: js_or_def)
qed

subsection \<open>Role Gate\<close>

text \<open>
  C5. The Role Gate answers 401 \<^verbatim>\<open>AUTH_REQUIRED\<close> when no identity is attached, 403
  \<^verbatim>\<open>INSUFFICIENT_PERMISSIONS\<close> when the identity's role is not in the allow-list, and
  lets the request through otherwise. As a function of the identity and the allow-list
  alone it has no other effect.
\<close>
theorem C5_requireRole:
  "requireRole roles None = Respond 401 ''Authentication required'' ''AUTH_REQUIRED'' \<and>
   (role u \<notin> JStr ` set roles \<longrightarrow>
      requireRole roles (Some u) = Respond 403 ''Insufficient permissions'' ''INSUFFICIENT_PERMISSIONS'') \<and>
   (role u \<in> JStr ` set roles \<longrightarrow> requireRole roles (Some u) = Next u)"
  by (simp add: requireRole_def)

theorem C5_requireRole_witness:
  "requireRole [''doctor'', ''admin''] (Some \<lparr>uid = JStr ''u3'', email = JStr ''u3@clinic.example'', role = JStr ''pharmacist''\<rparr>) =
     Respond 403 ''Insufficient permissions'' ''INSUFFICIENT_PERMISSIONS'' \<and>
   requireRole [''doctor'', ''admin''] (Some demo_user) = Next demo_user"
proof -
  have a: "role \<lparr>uid = JStr ''u3'', email = JStr ''u3@clinic.example'', role = JStr ''pharmacist''\<rparr>
      \<notin> JStr ` set [''doctor'', ''admin'']"
    by simp
  have b: "role demo_user \<in> JStr ` set [''doctor'', ''admin'']"
    by (simp add: demo_user_def)
  from C5_requireRole [of "[''doctor'', ''admin'']"
      "\<lparr>uid = JStr ''u3'', email = JStr ''u3@clinic.example'', role = JStr ''pharmacist''\<rparr>"]
    C5_requireRole [of "[''doctor'', ''admin'']" demo_user] a b
  show ?thesis by blast
qed

subsection \<open>Store values take precedence\<close>

text \<open>
  C6. For a validated payload with a truthy \<^verbatim>\<open>id\<close>, a configured store and a lookup
  that returns a row, the attached identity's id, email and role are those of the row,
  whatever the payload claims, and the request proceeds.
\<close>
theorem C6_store_record_precedence:
  assumes "bearer_token (authorization req) = Some token" and "token \<noteq> []"
    and "validated E P token d"
    and "get_prop d ''id'' = Some i" and "truthy i"
    and "query i = Rows (row # rest)"
  shows "authenticateToken E P (Some query) req =
           Next \<lparr>uid = row_id row, email = row_email row, role = row_role row\<rparr>"
proof -
  from assms(4) obtain u e r where
    "get_prop d ''userId'' = Some u" "get_prop d ''email'' = Some e" "get_prop d ''role'' = Some r"
    by (cases d) auto
  with assms(4-6) have "resolve_identity (Some query) d =
      Next \<lparr>uid = row_id row, email = row_email row, role = row_role row\<rparr>"
    by (simp add: resolve_identity_def)
  with authenticate_validated [OF assms(1-3)] show ?thesis by simp
qed

theorem C6_store_record_precedence_witness:
  "authenticateToken env_production example_platform (Some example_store) (request_with ''Bearer hdr.u1.sig'') =
     Next \<lparr>uid = JStr ''u1'', email = JStr ''u1@clinic.example'', role = JStr ''doctor''\<rparr> \<and>
   requireRole [''doctor'', ''admin'']
     (Some \<lparr>uid = JStr ''u1'', email = JStr ''u1@clinic.example'', role = JStr ''doctor''\<rparr>) =
     Next \<lparr>uid = JStr ''u1'', email = JStr ''u1@clinic.example'', role = JStr ''doctor''\<rparr>"
proof -
  have "authenticateToken env_production example_platform (Some example_store) (request_with ''Bearer hdr.u1.sig'') =
      Next \<lparr>uid = row_id example_row, email = row_email example_row, role = row_role example_row\<rparr>"
    by (rule C6_store_record_precedence [where token = "''hdr.u1.sig''"
          and d = "JObj [(''id'', JStr ''u1''), (''role'', JStr ''doctor'')]" and i = "JStr ''u1''"
          and rest = "[]"])
      (simp_all add: request_with_def bearer_token_def example_platform_def validated_def
        example_store_def)
  then show ?thesis by (simp add: example_row_def requireRole_def)
qed

subsection \<open>Unknown user and store failure\<close>

text \<open>
  C7. For a validated payload with a truthy \<^verbatim>\<open>id\<close> and a configured store, a lookup
  that returns no row gives 401 \<^verbatim>\<open>USER_NOT_FOUND\<close>, and a lookup that throws gives 500
  \<^verbatim>\<open>DB_ERROR\<close>: two different answers.
\<close>
theorem C7_not_found_and_store_error:
  assumes "bearer_token (authorization req) = Some token" and "token \<noteq> []"
    and "validated E P token d"
    and "get_prop d ''id'' = Some i" and "truthy i"
  shows "(query i = Rows [] \<longrightarrow>
            authenticateToken E P (Some query) req = Respond 401 ''User not found'' ''USER_NOT_FOUND'') \<and>
         (query i = QueryError \<longrightarrow>
            authenticateToken E P (Some query) req =
              Respond 500 ''Database error during authentication'' ''DB_ERROR'')"
proof -
  from assms(4) obtain u e r where
    "get_prop d ''userId'' = Some u" "get_prop d ''email'' = Some e" "get_prop d ''role'' = Some r"
    by (cases d) auto
  with assms(4,5) have
    "query i = Rows [] \<longrightarrow> resolve_identity (Some query) d = Respond 401 ''User not found'' ''USER_NOT_FOUND''"
    "query i = QueryError \<longrightarrow> resolve_identity (Some query) d =
       Respond 500 ''Database error during authentication'' ''DB_ERROR''"
    by (simp_all add: resolve_identity_def)
  with authenticate_validated [OF assms(1-3)] show ?thesis by simp
qed


theorem C7_not_found_and_store_error_witness:
  "authenticateToken env_production example_platform (Some example_store) (request_with ''Bearer hdr.u2.sig'') =
     Respond 401 ''User not found'' ''USER_NOT_FOUND'' \<and>
   authenticateToken env_production example_platform (Some example_store) (request_with ''Bearer hdr.u9.sig'') =
     Respond 500 ''Database error during authentication'' ''DB_ERROR''"
proof -
  have "example_store (JStr ''u2'') = Rows [] \<longrightarrow>
      authenticateToken env_production example_platform (Some example_store) (request_with ''Bearer hdr.u2.sig'') =
        Respond 401 ''User not found'' ''USER_NOT_FOUND''"
    using C7_not_found_and_store_error [where token = "''hdr.u2.sig''" and E = env_production
        and P = example_platform and req = "request_with ''Bearer hdr.u2.sig''"
        and d = "JObj [(''id'', JStr ''u2'')]" and i = "JStr ''u2''" and query = example_store]
    by (simp add: request_with_def bearer_token_def example_platform_def validated_def)
  moreover have "example_store (JStr ''u9'') = QueryError \<longrightarrow>
      authenticateToken env_production example_platform (Some example_store) (request_with ''Bearer hdr.u9.sig'') =
        Respond 500 ''Database error during authentication'' ''DB_ERROR''"
    using C7_not_found_and_store_error [where token = "''hdr.u9.sig''" and E = env_production
        and P = example_platform and req = "request_with ''Bearer hdr.u9.sig''"
        and d = "JObj [(''id'', JStr ''u9'')]" and i = "JStr ''u9''" and query = example_store]
    by (simp add: request_with_def bearer_token_def example_platform_def validated_def)
  ultimately show ?thesis by (simp add: example_store_def)
qed

subsection \<open>Token Resolver\<close>

text \<open>
  Against C8 as stated: a header of another scheme, \<^verbatim>\<open>Basic dXNlcjpwdw==\<close>, is not of
  the form \<^verbatim>\<open>Bearer <token>\<close>, yet its second segment is returned as the token.
\<close>
theorem C8_counterexample:
  "bearer_token (Some ''Basic dXNlcjpwdw=='') = Some ''dXNlcjpwdw=='' \<and>
   \<not> no_token (bearer_token (Some ''Basic dXNlcjpwdw==''))"
  by (simp add: bearer_token_def no_token_def)

text \<open>
  C8 (amended). The Token Resolver returns the second space-separated segment of the
  header, whatever the first segment is; for \<^verbatim>\<open>Bearer <token>\<close> with a token free of
  spaces that is the token. It signals no token when the header is absent, has no
  space, or has an empty second segment.
\<close>
theorem C8_token_resolver:
  "no_token (bearer_token None) \<and>
   (CHR '' '' \<notin> set h \<longrightarrow> no_token (bearer_token (Some h))) \<and>
   (CHR '' '' \<notin> set scheme \<longrightarrow> no_token (bearer_token (Some (scheme @ '' '')))) \<and>
   (CHR '' '' \<notin> set scheme \<and> CHR '' '' \<notin> set t \<longrightarrow>
      bearer_token (Some (scheme @ '' '' @ t)) = Some t \<and>
      bearer_token (Some (scheme @ '' '' @ t @ '' '' @ rest)) = Some t) \<and>
   (CHR '' '' \<notin> set t \<longrightarrow> bearer_token (Some (''Bearer '' @ t)) = Some t)"
proof -
  have a: "no_token (bearer_token None)"
    by (simp add: bearer_token_def no_token_def)
  have b: "no_token (bearer_token (Some h))" if "CHR '' '' \<notin> set h"
    using that by (simp add: bearer_token_def no_token_def split_sp_no_space)
  have c: "bearer_token (Some (p @ '' '' @ t)) = Some t"
    if "CHR '' '' \<notin> set p" "CHR '' '' \<notin> set t" for p
    using that by (simp add: bearer_token_def split_sp_append split_sp_no_space)
  have d: "bearer_token (Some (p @ '' '' @ t @ '' '' @ rest)) = Some t"
    if "CHR '' '' \<notin> set p" "CHR '' '' \<notin> set t" for p
    using that by (simp add: bearer_token_def split_sp_append)
  have e: "no_token (bearer_token (Some (scheme @ '' '')))" if "CHR '' '' \<notin> set scheme"
    using that by (simp add: bearer_token_def no_token_def split_sp_append)
  have f: "bearer_token (Some (''Bearer '' @ t)) = Some t" if "CHR '' '' \<notin> set t"
    using c [of "''Bearer''"] that by simp
  from a b c [of scheme] d [of scheme] e f show ?thesis by blast
qed

theorem C8_token_resolver_witness:
  "bearer_token (Some ''Bearer hdr.u1.sig'') = Some ''hdr.u1.sig'' \<and>
   bearer_token (Some ''Bearer hdr.u1.sig trailer'') = Some ''hdr.u1.sig'' \<and>
   no_token (bearer_token (Some ''hdr.u1.sig'')) \<and>
   no_token (bearer_token (Some ''Bearer ''))"
  using C8_token_resolver [of "''hdr.u1.sig''" "''Bearer''" "''hdr.u1.sig''" "''trailer''"]
  by simp

subsection \<open>Populated identities\<close>




subsection \<open>Payloads without an id\<close>

text \<open>
  C10. For a validated payload without an \<^verbatim>\<open>id\<close> field the store is not consulted,
  configured or not: the identity is built from the payload, with \<^verbatim>\<open>userId\<close> or
  \<^verbatim>\<open>demo-user\<close> as id, \<^verbatim>\<open>demo@example.com\<close> for a missing email and \<^verbatim>\<open>admin\<close>
  for a missing role.
\<close>
theorem C10_no_id_skips_store:
  assumes "bearer_token (authorization req) = Some token" and "token \<noteq> []"
    and "validated E P token d"
    and "get_prop d ''id'' = Some JUndefined" and "get_prop d ''userId'' = Some u"
    and "get_prop d ''email'' = Some e" and "get_prop d ''role'' = Some r"
  shows "authenticateToken E P db req =
           Next \<lparr>uid = js_or u (JStr ''demo-user''), email = js_or e (JStr ''demo@example.com''),
                 role = js_or r (JStr ''admin'')\<rparr> \<and>
         (\<not> truthy r \<longrightarrow>
            authenticateToken E P db req =
              Next \<lparr>uid = js_or u (JStr ''demo-user''), email = js_or e (JStr ''demo@example.com''),
                    role = JStr ''admin''\<rparr>)"
proof -
  from assms(4-7) have "resolve_identity db d =
      Next \<lparr>uid = js_or u (JStr ''demo-user''), email = js_or e (JStr ''demo@example.com''),
            role = js_or r (JStr ''admin'')\<rparr>"
    by (cases db) (simp_all add: resolve_identity_def js_or_def)
  with authenticate_validated [OF assms(1-3)] show ?thesis by (simp add: js_or_def)
qed

theorem C10_no_id_skips_store_witness:
  "authenticateToken env_production example_platform (Some example_store)
     (request_with ''Bearer eyJ1c2VySWQiOiJ1NyJ9'') =
     Next \<lparr>uid = JStr ''u7'', email = JStr ''demo@example.com'', role = JStr ''admin''\<rparr>"
proof -
  have "authenticateToken env_production example_platform (Some example_store)
      (request_with ''Bearer eyJ1c2VySWQiOiJ1NyJ9'') =
      Next \<lparr>uid = js_or (JStr ''u7'') (JStr ''demo-user''),
            email = js_or JUndefined (JStr ''demo@example.com''),
            role = js_or JUndefined (JStr ''admin'')\<rparr> \<and>
      (\<not> truthy JUndefined \<longrightarrow>
         authenticateToken env_production example_platform (Some example_store)
           (request_with ''Bearer eyJ1c2VySWQiOiJ1NyJ9'') =
           Next \<lparr>uid = js_or (JStr ''u7'') (JStr ''demo-user''),
                 email = js_or JUndefined (JStr ''demo@example.com''),
                 role = JStr ''admin''\<rparr>)"
    by (rule C10_no_id_skips_store [where token = "''eyJ1c2VySWQiOiJ1NyJ9''"
          and d = "JObj [(''userId'', JStr ''u7'')]"])
      (simp_all add: request_with_def bearer_token_def example_platform_def validated_def
        mock_decode_def dq_def)
  then show ?thesis by (simp add: js_or_def)
qed

end
